theory Spec2Isabelle
  imports Main "HOL-Library.Sublist"
begin

unbundle bit_operations_syntax

text \<open>
  The example DAG \<open>example_params_ui_tutorial\<close>: its task \<open>show_params\<close>, which prints
  the configuration of the run or skips when there is none, and its \<open>params\<close> dictionary,
  the declarations of the trigger form. The task prints through \<open>json.dumps\<close>, so the
  encoder of Python's \<open>json\<close> module is part of the model.
\<close>

section \<open>Text\<close>

text \<open>
  A Python \<open>str\<close> is a sequence of Unicode code points. It is modelled as the list of
  its code points, so that \<open>length\<close> is Python's \<open>len\<close> and \<open>@\<close> is \<open>+\<close>.
  String literals of the source are all ASCII and are written \<open>lit ''...''\<close>.
\<close>

type_synonym pystr = "nat list"

definition lit :: "string \<Rightarrow> pystr" where
  "lit s = map of_char s"

text \<open>Python's \<open>needle in haystack\<close> on strings: \<open>needle\<close> occurs as a contiguous part.\<close>

fun contains :: "pystr \<Rightarrow> pystr \<Rightarrow> bool" where
  "contains [] needle = (needle = [])"
| "contains (c # cs) needle = (prefix needle (c # cs) \<or> contains cs needle)"

section \<open>JSON values and \<open>json.dumps(obj, indent=4)\<close>\<close>

text \<open>
  The run configuration is a JSON document. A \<open>dict\<close> keeps its insertion order, so an
  object is the list of its items in that order (a Python \<open>dict\<close> has pairwise distinct keys;
  nothing below depends on it). \<open>bool\<close> comes before \<open>int\<close> as in the encoder, which tests
  \<open>value is True\<close> before \<open>isinstance(value, int)\<close>. Floating-point numbers are kept
  abstract: \<open>'f\<close> is the type of Python floats and the encoder's \<open>floatstr\<close> is a parameter.
\<close>

datatype 'f json =
    JNull
  | JBool bool
  | JInt int
  | JFloat 'f
  | JString pystr
  | JArray "'f json list"
  | JObject "(pystr \<times> 'f json) list"

type_synonym 'f pydict = "(pystr \<times> 'f json) list"

text \<open>\<open>'{0:04x}'.format(n)\<close>, for \<open>n < 0x10000\<close>: four lower-case hexadecimal digits.\<close>

definition hexdigit :: "nat \<Rightarrow> nat" where
  "hexdigit d = (if d < 10 then 48 + d else 87 + d)"

definition hex4 :: "nat \<Rightarrow> pystr" where
  "hex4 n = [hexdigit (n div 4096 mod 16), hexdigit (n div 256 mod 16),
             hexdigit (n div 16 mod 16), hexdigit (n mod 16)]"

text \<open>
  \<open>ESCAPE_DCT\<close> of \<open>json.encoder\<close>: backslash, double quote, and the control characters
  (\<open>\b \f \n \r \t\<close> by name, the other code points below \<open>0x20\<close> as \<open>\u00XX\<close>).
  Code point 92 is the backslash, 34 the double quote.
\<close>

definition ESCAPE_DCT :: "nat \<Rightarrow> pystr option" where
  "ESCAPE_DCT n =
     (if n = 92 then Some [92, 92]
      else if n = 34 then Some [92, 34]
      else if n = 8 then Some (92 # lit ''b'')
      else if n = 12 then Some (92 # lit ''f'')
      else if n = 10 then Some (92 # lit ''n'')
      else if n = 13 then Some (92 # lit ''r'')
      else if n = 9 then Some (92 # lit ''t'')
      else if n < 0x20 then Some (92 # lit ''u'' @ hex4 n)
      else None)"

text \<open>
  \<open>replace\<close> of \<open>py_encode_basestring_ascii\<close>: the escape of one matched code point;
  a code point beyond \<open>0xFFFF\<close> becomes a surrogate pair.
\<close>

definition replace :: "nat \<Rightarrow> pystr" where
  "replace n =
     (case ESCAPE_DCT n of
        Some r \<Rightarrow> r
      | None \<Rightarrow>
          if n < 0x10000 then 92 # lit ''u'' @ hex4 n
          else
            let m = n - 0x10000;
                s1 = 0xd800 OR (drop_bit 10 m AND 0x3ff);
                s2 = 0xdc00 OR (m AND 0x3ff)
            in 92 # lit ''u'' @ hex4 s1 @ 92 # lit ''u'' @ hex4 s2)"

text \<open>\<open>ESCAPE_ASCII\<close>, the pattern \<open>([\\"]|[^\ -~])\<close>: what has to be escaped.\<close>

definition ESCAPE_ASCII :: "nat \<Rightarrow> bool" where
  "ESCAPE_ASCII n = (n = 92 \<or> n = 34 \<or> n < 32 \<or> 126 < n)"

definition encode_basestring_ascii :: "pystr \<Rightarrow> pystr" where
  "encode_basestring_ascii s =
     34 # concat (map (\<lambda>n. if ESCAPE_ASCII n then replace n else [n]) s) @ [34]"

text \<open>\<open>int.__repr__\<close>: decimal digits, with a minus sign for a negative number.\<close>

fun digits :: "nat \<Rightarrow> pystr" where
  "digits n = (if n < 10 then [48 + n] else digits (n div 10) @ [48 + n mod 10])"

definition int_repr :: "int \<Rightarrow> pystr" where
  "int_repr i = (if i < 0 then lit ''-'' @ digits (nat (- i)) else digits (nat i))"

text \<open>
  \<open>newline_indent\<close> of the encoder at a nesting level, with \<open>_indent = ' ' * 4\<close>:
  \<open>'\n' + _indent * _current_indent_level\<close>.
\<close>

definition newline_indent :: "nat \<Rightarrow> pystr" where
  "newline_indent level = 10 # replicate (4 * level) 32"

text \<open>
  \<open>_make_iterencode\<close> with \<open>indent=4\<close>, hence \<open>_item_separator = ','\<close> and
  \<open>_key_separator = ': '\<close>, with the chunks joined. \<open>iterencode_list\<close> and
  \<open>iterencode_dict\<close> are the two \<open>for\<close> loops over the items, already at the inner
  nesting level; the test on the rest of the items is the loop's \<open>first\<close> flag.
  Keys are strings, as in a parsed JSON document.
\<close>

fun iterencode :: "('f \<Rightarrow> pystr) \<Rightarrow> 'f json \<Rightarrow> nat \<Rightarrow> pystr"
  and iterencode_list :: "('f \<Rightarrow> pystr) \<Rightarrow> 'f json list \<Rightarrow> nat \<Rightarrow> pystr"
  and iterencode_dict :: "('f \<Rightarrow> pystr) \<Rightarrow> 'f pydict \<Rightarrow> nat \<Rightarrow> pystr"
where
  "iterencode floatstr (JString s) level = encode_basestring_ascii s"
| "iterencode floatstr JNull level = lit ''null''"
| "iterencode floatstr (JBool b) level = (if b then lit ''true'' else lit ''false'')"
| "iterencode floatstr (JInt i) level = int_repr i"
| "iterencode floatstr (JFloat x) level = floatstr x"
| "iterencode floatstr (JArray lst) level =
     (if lst = [] then lit ''[]''
      else lit ''['' @ newline_indent (level + 1)
           @ iterencode_list floatstr lst (level + 1)
           @ newline_indent level @ lit '']'')"
| "iterencode floatstr (JObject dct) level =
     (if dct = [] then lit ''{}''
      else lit ''{'' @ newline_indent (level + 1)
           @ iterencode_dict floatstr dct (level + 1)
           @ newline_indent level @ lit ''}'')"
| "iterencode_list floatstr [] level = []"
| "iterencode_list floatstr (v # rest) level =
     iterencode floatstr v level
     @ (if rest = [] then []
        else lit '','' @ newline_indent level @ iterencode_list floatstr rest level)"
| "iterencode_dict floatstr [] level = []"
| "iterencode_dict floatstr ((k, v) # rest) level =
     encode_basestring_ascii k @ lit '': '' @ iterencode floatstr v level
     @ (if rest = [] then []
        else lit '','' @ newline_indent level @ iterencode_dict floatstr rest level)"

definition json_dumps :: "('f \<Rightarrow> pystr) \<Rightarrow> 'f json \<Rightarrow> pystr" where
  "json_dumps floatstr obj = iterencode floatstr obj 0"

section \<open>The task \<open>show_params\<close>\<close>

text \<open>
  The objects the task reads. \<open>DagRun.conf\<close> is a \<open>dict\<close> or \<open>None\<close>. Airflow passes the
  execution context as keyword arguments and \<open>ti\<close> is always one of them, so
  \<open>kwargs["ti"]\<close> is a field selection. All other attributes of these objects are the
  records' extension fields. The world is the context together with the standard output.
\<close>

record 'f DagRun =
  conf :: "'f pydict option"

record ('f, 'a) TaskInstance =
  dag_run :: "('f, 'a) DagRun_scheme"

record ('f, 'a, 'b) Context =
  ti :: "('f, 'a, 'b) TaskInstance_scheme"

record ('f, 'a, 'b, 'c) world =
  kwargs :: "('f, 'a, 'b, 'c) Context_scheme"
  stdout :: pystr

text \<open>
  Exceptions with their messages: the skip signal, and \<open>Exception\<close> for any other one.
  A result is the exception raised or the value returned, with the world at that moment.
\<close>

datatype exn =
    AirflowSkipException pystr
  | Exception pystr

type_synonym ('r, 'w) result = "(exn + 'r) \<times> 'w"

text \<open>\<open>print(text)\<close> writes the text and a newline to the standard output.\<close>

definition print :: "pystr \<Rightarrow> ('f, 'a, 'b, 'c, 'd) world_scheme \<Rightarrow> ('f, 'a, 'b, 'c, 'd) world_scheme" where
  "print text w = w\<lparr>stdout := stdout w @ text @ [10]\<rparr>"

text \<open>Truth value of \<open>dag_run.conf\<close>: \<open>None\<close> and the empty \<open>dict\<close> are false.\<close>

definition truthy :: "'f pydict option \<Rightarrow> bool" where
  "truthy c = (case c of None \<Rightarrow> False | Some d \<Rightarrow> d \<noteq> [])"

definition conf_json :: "'f pydict option \<Rightarrow> 'f json" where
  "conf_json c = (case c of None \<Rightarrow> JNull | Some d \<Rightarrow> JObject d)"

definition show_params ::
  "('f \<Rightarrow> pystr) \<Rightarrow> ('f, 'a, 'b, 'c, 'd) world_scheme \<Rightarrow> (unit, ('f, 'a, 'b, 'c, 'd) world_scheme) result" where
  "show_params floatstr w =
     (let ti = ti (kwargs w);
          dag_run = dag_run ti
      in if \<not> truthy (conf dag_run) then
           let w' = print (lit ''Uups, no parameters supplied as DagRun.conf, was the trigger w/o form?'') w
           in (Inl (AirflowSkipException (lit ''No DagRun.conf parameters supplied.'')), w')
         else
           (Inr (),
            print (lit ''This DAG was triggered with the following parameters:\<newline>''
                   @ json_dumps floatstr (conf_json (conf dag_run))) w))"

text \<open>The run configuration of a world, and the text a run of the task adds to the output.\<close>

definition run_conf :: "('f, 'a, 'b, 'c, 'd) world_scheme \<Rightarrow> 'f pydict option" where
  "run_conf w = conf (dag_run (ti (kwargs w)))"

definition emitted :: "('f \<Rightarrow> pystr) \<Rightarrow> ('f, 'a, 'b, 'c, 'd) world_scheme \<Rightarrow> pystr" where
  "emitted floatstr w = drop (length (stdout w)) (stdout (snd (show_params floatstr w)))"

definition no_conf :: "'f pydict option \<Rightarrow> bool" where
  "no_conf c = (c = None \<or> c = Some [])"

text \<open>
  Modelled from the spec: how the task runner records the end of a task, which is
  Airflow code outside this file. A raised skip signal marks the run skipped ("the run is
  marked skipped, not failed"), any other exception is a failure, a normal return a success.
\<close>

datatype ti_state = Success | Skipped | Failed

fun task_state :: "exn + unit \<Rightarrow> ti_state" where
  "task_state (Inl (AirflowSkipException msg)) = Skipped"
| "task_state (Inl (Exception msg)) = Failed"
| "task_state (Inr u) = Success"

section \<open>The parameter declarations\<close>

text \<open>
  The \<open>params\<close> dictionary of the DAG, item by item in the order of the source. An entry
  is a bare default value or \<open>Param(default, **kwargs)\<close>; the keyword arguments (the
  description and the keywords of the validation schema) are kept in the order they are
  written, under their names.
\<close>

datatype 'f entry =
    Bare "'f json"
  | Param "'f json" "(string \<times> 'f json) list"

text \<open>\<open>range(a, b)\<close>, and \<open>str\<close> of a \<open>datetime.time\<close> without microseconds (\<open>%02d:%02d:%02d\<close>).\<close>

definition py_range :: "int \<Rightarrow> int \<Rightarrow> int list" where
  "py_range a b = [a..b - 1]"

definition pad2 :: "nat \<Rightarrow> pystr" where
  "pad2 n = (if n < 10 then lit ''0'' @ digits n else digits n)"

definition time_str :: "nat \<Rightarrow> nat \<Rightarrow> nat \<Rightarrow> pystr" where
  "time_str hour minute second = pad2 hour @ lit '':'' @ pad2 minute @ lit '':'' @ pad2 second"

text \<open>The texts of the source that span several lines, one piece per line.\<close>

definition most_loved_number_description_html :: pystr where
  "most_loved_number_description_html = lit
     (''Everybody should have a favorite number. Not only math teachers.\<newline>''
      @ ''            If you can not think of any at the moment please think of the 42 which is very famous because\<newline>''
      @ ''            of the book\<newline>''
      @ ''            <a href='https://en.wikipedia.org/wiki/Phrases_from_The_Hitchhiker%27s_Guide_to_the_Galaxy#\<newline>''
      @ ''            The_Answer_to_the_Ultimate_Question_of_Life,_the_Universe,_and_Everything_is_42'>\<newline>''
      @ ''            The Hitchhiker's Guide to the Galaxy</a>'')"

definition optional_field_description_html :: pystr where
  "optional_field_description_html = lit
     (''This field is optional. As field content is JSON schema validated you ''
      @ ''must allow the <code>null</code> type.'')"

definition checked_text_description_html :: pystr where
  "checked_text_description_html = lit
     (''This field is required. And you need to provide something between 10 and 30\<newline>''
      @ ''            characters. See the\<newline>''
      @ ''            <a href='https://json-schema.org/understanding-json-schema/reference/string.html'>\<newline>''
      @ ''            JSON schema description (string)</a> in for more details'')"

definition checked_number_description_html :: pystr where
  "checked_number_description_html = lit
     (''This field is required. You need to provide any number between 64 and 128.\<newline>''
      @ ''            See the <a href='https://json-schema.org/understanding-json-schema/reference/numeric.html'>\<newline>''
      @ ''            JSON schema description (numbers)</a> in for more details'')"

definition color_picker_description_html :: pystr where
  "color_picker_description_html = lit
     (''This is a special HTML widget as custom implementation in the DAG code.\<newline>''
      @ ''            It is templated with the following parameter to render proper HTML form fields:\<newline>''
      @ ''            <ul>\<newline>''
      @ ''                <li><code>{name}</code>: Name of the HTML input field that is expected.</li>\<newline>''
      @ ''                <li><code>{value}</code>:\<newline>''
      @ ''                    (Default) value that should be displayed when showing/loading the form.</li>\<newline>''
      @ ''                <li>Note: If you have elements changing a value, call <code>updateJSONconf()</code> to update\<newline>''
      @ ''                    the form data to be posted as <code>dag_run.conf</code>.</li>\<newline>''
      @ ''            </ul>\<newline>''
      @ ''            Example: <code>&lt;input name='{name}' value='{value}' onchange='updateJSONconf()' /&gt;</code>\<newline>''
      @ ''            '')"

definition color_picker_custom_html_form :: pystr where
  "color_picker_custom_html_form = lit
     (''\<newline>''
      @ ''            <table width=\"100%\" cellspacing=\"5\"><tbody><tr><td>\<newline>''
      @ ''                <label for=\"r_{name}\">Red:</label>\<newline>''
      @ ''            </td><td width=\"80%\">\<newline>''
      @ ''                <input id=\"r_{name}\" type=\"range\" min=\"0\" max=\"255\" value=\"0\" onchange=\"u_{name}()\"/>\<newline>''
      @ ''            </td><td rowspan=\"3\" style=\"padding-left: 10px;\">\<newline>''
      @ ''                <div id=\"preview_{name}\"\<newline>''
      @ ''                style=\"line-height: 40px; margin-bottom: 7px; width: 100%; background-color: {value};\"\<newline>''
      @ ''                >&nbsp;</div>\<newline>''
      @ ''                <input class=\"form-control\" type=\"text\" maxlength=\"7\" id=\"{name}\" name=\"{name}\"\<newline>''
      @ ''                value=\"{value}\" onchange=\"v_{name}()\" />\<newline>''
      @ ''            </td></tr><tr><td>\<newline>''
      @ ''                <label for=\"g_{name}\">Green:</label>\<newline>''
      @ ''            </td><td>\<newline>''
      @ ''                <input id=\"g_{name}\" type=\"range\" min=\"0\" max=\"255\" value=\"0\" onchange=\"u_{name}()\"/>\<newline>''
      @ ''            </td></tr><tr><td>\<newline>''
      @ ''                <label for=\"b_{name}\">Blue:</label>\<newline>''
      @ ''            </td><td>\<newline>''
      @ ''                <input id=\"b_{name}\" type=\"range\" min=\"0\" max=\"255\" value=\"0\" onchange=\"u_{name}()\"/>\<newline>''
      @ ''            </td></tr></tbody></table>\<newline>''
      @ ''            <script lang=\"javascript\">\<newline>''
      @ ''                const hex_chars = \"0123456789ABCDEF\";\<newline>''
      @ ''                function i2hex(name) {\<newline>''
      @ ''                    var i = document.getElementById(name).value;\<newline>''
      @ ''                    return hex_chars.substr(parseInt(i / 16), 1) + hex_chars.substr(parseInt(i % 16), 1)\<newline>''
      @ ''                }\<newline>''
      @ ''                function u_{name}() {\<newline>''
      @ ''                    var hex_val = \"#\"+i2hex(\"r_{name}\")+i2hex(\"g_{name}\")+i2hex(\"b_{name}\");\<newline>''
      @ ''                    document.getElementById(\"{name}\").value = hex_val;\<newline>''
      @ ''                    document.getElementById(\"preview_{name}\").style.background = hex_val;\<newline>''
      @ ''                    updateJSONconf();\<newline>''
      @ ''                }\<newline>''
      @ ''                function hex2i(text) {\<newline>''
      @ ''                    return hex_chars.indexOf(text.substr(0,1)) * 16 + hex_chars.indexOf(text.substr(1,1));\<newline>''
      @ ''                }\<newline>''
      @ ''                function v_{name}() {\<newline>''
      @ ''                    var value = document.getElementById(\"{name}\").value.toUpperCase();\<newline>''
      @ ''                    document.getElementById(\"r_{name}\").value = hex2i(value.substr(1,2));\<newline>''
      @ ''                    document.getElementById(\"g_{name}\").value = hex2i(value.substr(3,2));\<newline>''
      @ ''                    document.getElementById(\"b_{name}\").value = hex2i(value.substr(5,2));\<newline>''
      @ ''                    document.getElementById(\"preview_{name}\").style.background = value;\<newline>''
      @ ''                }\<newline>''
      @ ''                v_{name}();\<newline>''
      @ ''            </script>'')"


text \<open>
  The dictionary itself. \<open>today_1\<close> and \<open>today_2\<close> are \<open>str\<close> of the two calls of
  \<open>datetime.date.today()\<close>, in the defaults of \<open>date_time\<close> and of \<open>date\<close>.
\<close>

definition params :: "pystr \<Rightarrow> pystr \<Rightarrow> (pystr \<times> 'f entry) list" where
  "params today_1 today_2 =
     [(lit ''x'', Bare (JInt 3)),
      (lit ''text'', Bare (JString (lit ''Hello World!''))),
      (lit ''flag'', Bare (JBool False)),
      (lit ''a_simple_list'',
        Bare (JArray [JString (lit ''one''), JString (lit ''two''), JString (lit ''three''),
                      JString (lit ''actually one value is made per line'')])),
      (lit ''most_loved_number'',
        Param (JInt 42)
          [(''type'', JString (lit ''integer'')),
           (''title'', JString (lit ''You favorite number'')),
           (''description_html'', JString most_loved_number_description_html)]),
      (lit ''pick_one'',
        Param (JString (lit ''value 42''))
          [(''type'', JString (lit ''string'')),
           (''title'', JString (lit ''Select one Value'')),
           (''description'', JString (lit ''You can use JSON schema enum's to generate drop down selection boxes.'')),
           (''enum'', JArray (map (\<lambda>i. JString (lit ''value '' @ int_repr i)) (py_range 16 64)))]),
      (lit ''bool'',
        Param (JBool True)
          [(''type'', JString (lit ''boolean'')),
           (''title'', JString (lit ''Please confirm'')),
           (''description'', JString (lit ''A On/Off selection with a proper description.''))]),
      (lit ''date_time'',
        Param (JString (today_1 @ lit ''T'' @ time_str 12 17 0 @ lit ''+00:00''))
          [(''type'', JString (lit ''string'')),
           (''format'', JString (lit ''date-time'')),
           (''title'', JString (lit ''Date-Time Picker'')),
           (''description'', JString (lit ''Please select a date and time, use the button on the left for a pup-up calendar.''))]),
      (lit ''date'',
        Param (JString today_2)
          [(''type'', JString (lit ''string'')),
           (''format'', JString (lit ''date'')),
           (''title'', JString (lit ''Date Picker'')),
           (''description'', JString (lit ''Please select a date, use the button on the left for a pup-up calendar. See that here are no times!''))]),
      (lit ''time'',
        Param (JString (time_str 12 13 14))
          [(''type'', JArray [JString (lit ''string''), JString (lit ''null'')]),
           (''format'', JString (lit ''time'')),
           (''title'', JString (lit ''Time Picker'')),
           (''description'', JString (lit ''Please select a time, use the button on the left for a pup-up tool.''))]),
      (lit ''required_field'',
        Param (JString (lit ''You can not trigger if no text is given here!''))
          [(''type'', JString (lit ''string'')),
           (''title'', JString (lit ''Required text field'')),
           (''description'', JString (lit ''This field is required. You can not submit without having text in here.''))]),
      (lit ''optional_field'',
        Param (JString (lit ''optional text, you can trigger also w/o text''))
          [(''type'', JArray [JString (lit ''null''), JString (lit ''string'')]),
           (''title'', JString (lit ''Optional text field'')),
           (''description_html'', JString optional_field_description_html)]),
      (lit ''checked_text'',
        Param (JString (lit ''length-checked-field''))
          [(''type'', JString (lit ''string'')),
           (''title'', JString (lit ''Text field with length check'')),
           (''description_html'', JString checked_text_description_html),
           (''minLength'', JInt 10),
           (''maxLength'', JInt 20),
           (''section'', JString (lit ''JSON Schema validation options''))]),
      (lit ''checked_number'',
        Param (JInt 100)
          [(''type'', JString (lit ''number'')),
           (''title'', JString (lit ''Number field with value check'')),
           (''description_html'', JString checked_number_description_html),
           (''minimum'', JInt 64),
           (''maximum'', JInt 128),
           (''section'', JString (lit ''JSON Schema validation options''))]),
      (lit ''object'',
        Param (JObject [(lit ''key'', JString (lit ''value''))])
          [(''type'', JArray [JString (lit ''object''), JString (lit ''null'')]),
           (''title'', JString (lit ''JSON entry field'')),
           (''section'', JString (lit ''Special advanced stuff with form fields''))]),
      (lit ''hidden_secret_field'',
        Param (JString (lit ''constant value''))
          [(''const'', JString (lit ''constant value''))]),
      (lit ''color_picker'',
        Param (JString (lit ''#FF8800''))
          [(''type'', JString (lit ''string'')),
           (''title'', JString (lit ''Pick a color'')),
           (''description_html'', JString color_picker_description_html),
           (''custom_html_form'', JString color_picker_custom_html_form),
           (''section'', JString (lit ''Special advanced stuff with form fields''))])]"

text \<open>
  Reading the declarations: the default of an entry and a keyword argument of it. The
  names of the dictionary are pairwise distinct, as proved below, so the item found
  first under a name is the value of the dictionary for it.
\<close>

fun default_value :: "'f entry \<Rightarrow> 'f json" where
  "default_value (Bare v) = v"
| "default_value (Param v kws) = v"

fun keyword :: "'f entry \<Rightarrow> string \<Rightarrow> 'f json option" where
  "keyword (Bare v) kw = None"
| "keyword (Param v kws) kw = map_of kws kw"

definition param_default :: "(pystr \<times> 'f entry) list \<Rightarrow> pystr \<Rightarrow> 'f json option" where
  "param_default ps name = map_option default_value (map_of ps name)"

definition param_keyword :: "(pystr \<times> 'f entry) list \<Rightarrow> pystr \<Rightarrow> string \<Rightarrow> 'f json option" where
  "param_keyword ps name kw = Option.bind (map_of ps name) (\<lambda>e. keyword e kw)"

text \<open>
  The constraints of the validation schema that the declarations are checked against:
  \<open>const\<close> (the value is the constant), \<open>minimum\<close> and \<open>maximum\<close> (inclusive bounds of
  a number), \<open>minLength\<close> and \<open>maxLength\<close> (inclusive bounds of the length of a string),
  \<open>enum\<close> (the value is one of the listed ones).
\<close>

fun const_ok :: "'f json \<Rightarrow> 'f json option \<Rightarrow> bool" where
  "const_ok v (Some c) = (v = c)"
| "const_ok v None = False"

fun number_within :: "'f json \<Rightarrow> 'f json option \<Rightarrow> 'f json option \<Rightarrow> bool" where
  "number_within (JInt d) (Some (JInt lo)) (Some (JInt hi)) = (lo \<le> d \<and> d \<le> hi)"
| "number_within v lo hi = False"

fun length_within :: "'f json \<Rightarrow> 'f json option \<Rightarrow> 'f json option \<Rightarrow> bool" where
  "length_within (JString s) (Some (JInt lo)) (Some (JInt hi)) =
     (lo \<le> int (length s) \<and> int (length s) \<le> hi)"
| "length_within v lo hi = False"

fun enum_member :: "'f json \<Rightarrow> 'f json option \<Rightarrow> bool" where
  "enum_member v (Some (JArray allowed)) = (v \<in> set allowed)"
| "enum_member v other = False"

definition has_bounds :: "'f entry \<Rightarrow> bool" where
  "has_bounds e =
     list_ex (\<lambda>kw. keyword e kw \<noteq> None) [''minimum'', ''maximum'', ''minLength'', ''maxLength'']"

definition names :: "(pystr \<times> 'f entry) list \<Rightarrow> pystr list" where
  "names ps = map fst ps"

section \<open>Example runs\<close>

text \<open>
  A small configuration, a world around a given configuration and earlier output, and a
  rendering of floats for configurations without floats.
\<close>

definition example_conf :: "unit pydict" where
  "example_conf =
     [(lit ''x'', JInt 3),
      (lit ''object'', JObject [(lit ''key'', JString (lit ''value''))])]"

definition example_world :: "unit pydict option \<Rightarrow> pystr \<Rightarrow> (unit, unit, unit, unit) world" where
  "example_world c out = \<lparr>kwargs = \<lparr>ti = \<lparr>dag_run = \<lparr>conf = c\<rparr>\<rparr>\<rparr>, stdout = out\<rparr>"

definition no_floats :: "unit \<Rightarrow> pystr" where
  "no_floats x = []"

section \<open>Properties of \<open>show_params\<close>\<close>

lemma truthy_iff: "truthy c = (\<not> no_conf c)"
  by (cases c) (simp_all add: truthy_def no_conf_def)

lemma show_params_skip:
  "no_conf (run_conf w) \<Longrightarrow>
   show_params floatstr w =
     (Inl (AirflowSkipException (lit ''No DagRun.conf parameters supplied.'')),
      print (lit ''Uups, no parameters supplied as DagRun.conf, was the trigger w/o form?'') w)"
  by (simp add: show_params_def truthy_iff run_conf_def Let_def)

lemma show_params_run:
  "\<not> no_conf (run_conf w) \<Longrightarrow>
   show_params floatstr w =
     (Inr (),
      print (lit ''This DAG was triggered with the following parameters:\<newline>''
             @ json_dumps floatstr (conf_json (run_conf w))) w)"
  by (simp add: show_params_def truthy_iff run_conf_def Let_def)

subsection \<open>Occurrences in a text\<close>

lemma contains_iff: "contains hay needle \<longleftrightarrow> (\<exists>pre post. hay = pre @ needle @ post)"
proof (induction hay)
  case Nil
  then show ?case by simp
next
  case (Cons c cs)
  show ?case
  proof
    assume "contains (c # cs) needle"
    then consider "prefix needle (c # cs)" | "contains cs needle" by auto
    then show "\<exists>pre post. c # cs = pre @ needle @ post"
    proof cases
      case 1
      then obtain post where "c # cs = needle @ post" by (auto simp: prefix_def)
      then have "c # cs = [] @ needle @ post" by simp
      then show ?thesis by blast
    next
      case 2
      then obtain pre post where "cs = pre @ needle @ post" using Cons.IH by blast
      then have "c # cs = (c # pre) @ needle @ post" by simp
      then show ?thesis by blast
    qed
  next
    assume "\<exists>pre post. c # cs = pre @ needle @ post"
    then obtain pre post where eq: "c # cs = pre @ needle @ post" by blast
    show "contains (c # cs) needle"
    proof (cases pre)
      case Nil
      with eq have "prefix needle (c # cs)" by (metis append_Nil prefixI)
      then show ?thesis using contains.simps(2) by blast
    next
      case (Cons p ps)
      then have "cs = ps @ needle @ post" using eq by simp
      then show ?thesis using Cons.IH by auto
    qed
  qed
qed



subsection \<open>The items of an encoded object\<close>




subsection \<open>What a run prints\<close>

lemma emitted_skip:
  "no_conf (run_conf w) \<Longrightarrow>
   emitted floatstr w =
     lit ''Uups, no parameters supplied as DagRun.conf, was the trigger w/o form?'' @ [10]"
  by (simp add: emitted_def show_params_skip print_def)

lemma emitted_run:
  "\<not> no_conf (run_conf w) \<Longrightarrow>
   emitted floatstr w =
     lit ''This DAG was triggered with the following parameters:\<newline>''
     @ json_dumps floatstr (conf_json (run_conf w)) @ [10]"
  by (simp add: emitted_def show_params_run print_def)

lemma stdout_show_params:
  "stdout (snd (show_params floatstr w)) = stdout w @ emitted floatstr w"
  by (cases "no_conf (run_conf w)")
     (simp_all add: emitted_def show_params_skip show_params_run print_def)

lemma run_conf_example_world: "run_conf (example_world c out) = c"
  by (simp add: run_conf_def example_world_def)

subsection \<open>The claims about the task\<close>





text \<open>
  C3. On the skip path (configuration absent or empty) the task ends with the skip signal
  in a world where the diagnostic about the missing \<open>DagRun.conf\<close> parameters has already
  been printed: the diagnostic, and nothing else, is the text of that run, and the run is
  marked skipped.
\<close>

theorem show_params_skip_emits_diagnostic:
  assumes "no_conf (run_conf w)"
  shows "show_params floatstr w =
           (Inl (AirflowSkipException (lit ''No DagRun.conf parameters supplied.'')),
            w\<lparr>stdout := stdout w
                 @ lit ''Uups, no parameters supplied as DagRun.conf, was the trigger w/o form?''
                 @ [10]\<rparr>)
         \<and> emitted floatstr w =
             lit ''Uups, no parameters supplied as DagRun.conf, was the trigger w/o form?'' @ [10]
         \<and> task_state (fst (show_params floatstr w)) = Skipped"
  using assms by (simp add: show_params_skip emitted_skip print_def)

theorem show_params_skip_emits_diagnostic_witness:
  "no_conf (run_conf (example_world None (lit ''earlier'')))
   \<and> stdout (snd (show_params no_floats (example_world None (lit ''earlier'')))) =
       lit ''earlierUups, no parameters supplied as DagRun.conf, was the trigger w/o form?\<newline>''
   \<and> task_state (fst (show_params no_floats (example_world None (lit ''earlier'')))) = Skipped"
proof -
  have h: "no_conf (run_conf (example_world None (lit ''earlier'')))"
    by (simp add: run_conf_example_world no_conf_def)
  from show_params_skip_emits_diagnostic [OF h, of no_floats] h show ?thesis
    by (simp add: example_world_def lit_def)
qed

text \<open>
  C7. The task changes nothing but the standard output, to which it appends the text it
  emits: the context with the task instance, the run and its configuration, and every
  other component of the world are the same after the run, whether the task returned or
  raised the skip signal.
\<close>

theorem show_params_frame:
  "snd (show_params floatstr w) = w\<lparr>stdout := stdout w @ emitted floatstr w\<rparr>
   \<and> kwargs (snd (show_params floatstr w)) = kwargs w
   \<and> run_conf (snd (show_params floatstr w)) = run_conf w
   \<and> world.more (snd (show_params floatstr w)) = world.more w"
proof (cases "no_conf (run_conf w)")
  case True
  then show ?thesis
    by (simp add: show_params_skip emitted_skip print_def run_conf_def)
next
  case False
  then show ?thesis
    by (simp add: show_params_run emitted_run print_def run_conf_def)
qed

theorem show_params_frame_witness:
  "kwargs (snd (show_params no_floats (example_world None (lit ''earlier'')))) =
     \<lparr>ti = \<lparr>dag_run = \<lparr>conf = None\<rparr>\<rparr>\<rparr>
   \<and> run_conf (snd (show_params no_floats (example_world (Some example_conf) []))) = Some example_conf"
  using show_params_frame [of no_floats "example_world None (lit ''earlier'')"]
    show_params_frame [of no_floats "example_world (Some example_conf) []"]
  by (simp add: run_conf_def example_world_def)

text \<open>
  C9. The outcome and the emitted text depend on the run configuration only: two runs
  with equal configurations end the same way (the same exception or a normal return, the
  same task state) and emit the same text, whatever else differs between the two worlds.
\<close>

theorem show_params_deterministic:
  assumes "run_conf w1 = run_conf w2"
  shows "fst (show_params floatstr w1) = fst (show_params floatstr w2)
         \<and> task_state (fst (show_params floatstr w1)) = task_state (fst (show_params floatstr w2))
         \<and> emitted floatstr w1 = emitted floatstr w2"
proof (cases "no_conf (run_conf w1)")
  case True
  with assms have "no_conf (run_conf w2)" by simp
  with True show ?thesis by (simp add: show_params_skip emitted_skip)
next
  case False
  with assms have "\<not> no_conf (run_conf w2)" by simp
  with False assms show ?thesis by (simp add: show_params_run emitted_run)
qed

theorem show_params_deterministic_witness:
  "run_conf (example_world (Some example_conf) []) =
     run_conf (example_world (Some example_conf) (lit ''earlier''))
   \<and> emitted no_floats (example_world (Some example_conf) []) =
       emitted no_floats (example_world (Some example_conf) (lit ''earlier''))"
  using show_params_deterministic
    [of "example_world (Some example_conf) []" "example_world (Some example_conf) (lit ''earlier'')" no_floats]
  by (simp add: run_conf_example_world)

section \<open>Properties of the parameter declarations\<close>

lemma lit_eq_iff: "lit a = lit b \<longleftrightarrow> a = b"
proof -
  have "inj (of_char :: char \<Rightarrow> nat)" by (rule injI) simp
  then show ?thesis unfolding lit_def by (rule inj_map_eq_map)
qed

lemma lit_append: "lit (a @ b) = lit a @ lit b"
  by (simp add: lit_def)

lemma hidden_secret_field_entry:
  "map_of (params today_1 today_2) (lit ''hidden_secret_field'') =
     Some (Param (JString (lit ''constant value'')) [(''const'', JString (lit ''constant value''))])"
  by (simp add: params_def lit_eq_iff)

lemma checked_text_entry:
  "map_of (params today_1 today_2) (lit ''checked_text'') =
     Some (Param (JString (lit ''length-checked-field''))
             [(''type'', JString (lit ''string'')),
              (''title'', JString (lit ''Text field with length check'')),
              (''description_html'', JString checked_text_description_html),
              (''minLength'', JInt 10),
              (''maxLength'', JInt 20),
              (''section'', JString (lit ''JSON Schema validation options''))])"
  by (simp add: params_def lit_eq_iff)

lemma checked_number_entry:
  "map_of (params today_1 today_2) (lit ''checked_number'') =
     Some (Param (JInt 100)
             [(''type'', JString (lit ''number'')),
              (''title'', JString (lit ''Number field with value check'')),
              (''description_html'', JString checked_number_description_html),
              (''minimum'', JInt 64),
              (''maximum'', JInt 128),
              (''section'', JString (lit ''JSON Schema validation options''))])"
  by (simp add: params_def lit_eq_iff)

lemma pick_one_entry:
  "map_of (params today_1 today_2) (lit ''pick_one'') =
     Some (Param (JString (lit ''value 42''))
             [(''type'', JString (lit ''string'')),
              (''title'', JString (lit ''Select one Value'')),
              (''description'',
               JString (lit ''You can use JSON schema enum's to generate drop down selection boxes.'')),
              (''enum'', JArray (map (\<lambda>i. JString (lit ''value '' @ int_repr i)) (py_range 16 64)))])"
  by (simp add: params_def lit_eq_iff)

lemma length_lit: "length (lit s) = length s"
  by (simp add: lit_def)

text \<open>
  C4. The parameter \<open>hidden_secret_field\<close> is declared with the default
  \<open>"constant value"\<close> and with \<open>const="constant value"\<close>: its default equals its constant.
\<close>

theorem hidden_secret_field_default_is_const:
  "param_default (params today_1 today_2) (lit ''hidden_secret_field'') =
     Some (JString (lit ''constant value''))
   \<and> param_keyword (params today_1 today_2) (lit ''hidden_secret_field'') ''const'' =
       Some (JString (lit ''constant value''))
   \<and> map_option (\<lambda>e. const_ok (default_value e) (keyword e ''const''))
       (map_of (params today_1 today_2) (lit ''hidden_secret_field'')) = Some True"
  by (simp add: param_default_def param_keyword_def hidden_secret_field_entry)

theorem hidden_secret_field_default_is_const_witness:
  "param_keyword (params (lit ''2022-03-04'') (lit ''2022-03-04'') :: (pystr \<times> unit entry) list)
     (lit ''hidden_secret_field'') ''const'' =
   param_default (params (lit ''2022-03-04'') (lit ''2022-03-04'') :: (pystr \<times> unit entry) list)
     (lit ''hidden_secret_field'')"
proof -
  let ?ps = "params (lit ''2022-03-04'') (lit ''2022-03-04'') :: (pystr \<times> unit entry) list"
  have default: "param_default ?ps (lit ''hidden_secret_field'') = Some (JString (lit ''constant value''))"
    by (rule hidden_secret_field_default_is_const [THEN conjunct1])
  have const: "param_keyword ?ps (lit ''hidden_secret_field'') ''const'' = Some (JString (lit ''constant value''))"
    by (rule hidden_secret_field_default_is_const [THEN conjunct2, THEN conjunct1])
  from default const show ?thesis by simp
qed

text \<open>
  C5. The defaults of the bounded parameters are within their declared bounds:
  \<open>checked_number\<close> has the default 100, \<open>minimum=64\<close> and \<open>maximum=128\<close>, and
  \<open>64 \<le> 100 \<le> 128\<close>; \<open>checked_text\<close> has the default \<open>"length-checked-field"\<close>,
  \<open>minLength=10\<close> and \<open>maxLength=20\<close>, and the length of the default is between the two.
  No other parameter declares a bound.
\<close>

theorem bounded_defaults_within_bounds:
  "param_default (params today_1 today_2) (lit ''checked_number'') = Some (JInt 100)
   \<and> param_keyword (params today_1 today_2) (lit ''checked_number'') ''minimum'' = Some (JInt 64)
   \<and> param_keyword (params today_1 today_2) (lit ''checked_number'') ''maximum'' = Some (JInt 128)
   \<and> map_option (\<lambda>e. number_within (default_value e) (keyword e ''minimum'') (keyword e ''maximum''))
       (map_of (params today_1 today_2) (lit ''checked_number'')) = Some True
   \<and> param_default (params today_1 today_2) (lit ''checked_text'') =
       Some (JString (lit ''length-checked-field''))
   \<and> param_keyword (params today_1 today_2) (lit ''checked_text'') ''minLength'' = Some (JInt 10)
   \<and> param_keyword (params today_1 today_2) (lit ''checked_text'') ''maxLength'' = Some (JInt 20)
   \<and> map_option (\<lambda>e. length_within (default_value e) (keyword e ''minLength'') (keyword e ''maxLength''))
       (map_of (params today_1 today_2) (lit ''checked_text'')) = Some True
   \<and> names (filter (\<lambda>(name, e). has_bounds e) (params today_1 today_2)) =
       [lit ''checked_text'', lit ''checked_number'']"
proof -
  have "names (filter (\<lambda>(name, e). has_bounds e) (params today_1 today_2)) =
       [lit ''checked_text'', lit ''checked_number'']"
    by (simp add: params_def has_bounds_def names_def)
  then show ?thesis
    by (simp add: param_default_def param_keyword_def checked_number_entry checked_text_entry
          length_lit)
qed

theorem bounded_defaults_within_bounds_witness:
  "param_default (params (lit ''2022-03-04'') (lit ''2022-03-04'') :: (pystr \<times> unit entry) list)
     (lit ''checked_number'') = Some (JInt 100)"
  by (rule bounded_defaults_within_bounds [THEN conjunct1])

text \<open>
  C6. The parameter \<open>pick_one\<close> has the default \<open>"value 42"\<close>, and its \<open>enum\<close> is the
  list of the 48 strings \<open>"value 16"\<close>, ..., \<open>"value 63"\<close>, one for every integer from 16
  to 63 in increasing order; the default is one of them.
\<close>

theorem pick_one_default_in_enum:
  "param_default (params today_1 today_2) (lit ''pick_one'') = Some (JString (lit ''value 42''))
   \<and> param_keyword (params today_1 today_2) (lit ''pick_one'') ''enum'' =
       Some (JArray (map (\<lambda>i. JString (lit ''value '' @ int_repr i)) [16..63]))
   \<and> map (\<lambda>i. JString (lit ''value '' @ int_repr i)) [16..63] =
       map (\<lambda>s. JString (lit s))
         [''value 16'', ''value 17'', ''value 18'', ''value 19'', ''value 20'', ''value 21'',
               ''value 22'', ''value 23'', ''value 24'', ''value 25'', ''value 26'', ''value 27'',
               ''value 28'', ''value 29'', ''value 30'', ''value 31'', ''value 32'', ''value 33'',
               ''value 34'', ''value 35'', ''value 36'', ''value 37'', ''value 38'', ''value 39'',
               ''value 40'', ''value 41'', ''value 42'', ''value 43'', ''value 44'', ''value 45'',
               ''value 46'', ''value 47'', ''value 48'', ''value 49'', ''value 50'', ''value 51'',
               ''value 52'', ''value 53'', ''value 54'', ''value 55'', ''value 56'', ''value 57'',
               ''value 58'', ''value 59'', ''value 60'', ''value 61'', ''value 62'', ''value 63'']
   \<and> map_option (\<lambda>e. enum_member (default_value e) (keyword e ''enum''))
       (map_of (params today_1 today_2) (lit ''pick_one'')) = Some True"
proof -
  have range: "py_range 16 64 = [16..63]"
    by (simp add: py_range_def)
  have strs: "map (\<lambda>i. JString (lit ''value '' @ int_repr i)) [16..63] =
       map (\<lambda>s. JString (lit s))
         [''value 16'', ''value 17'', ''value 18'', ''value 19'', ''value 20'', ''value 21'',
               ''value 22'', ''value 23'', ''value 24'', ''value 25'', ''value 26'', ''value 27'',
               ''value 28'', ''value 29'', ''value 30'', ''value 31'', ''value 32'', ''value 33'',
               ''value 34'', ''value 35'', ''value 36'', ''value 37'', ''value 38'', ''value 39'',
               ''value 40'', ''value 41'', ''value 42'', ''value 43'', ''value 44'', ''value 45'',
               ''value 46'', ''value 47'', ''value 48'', ''value 49'', ''value 50'', ''value 51'',
               ''value 52'', ''value 53'', ''value 54'', ''value 55'', ''value 56'', ''value 57'',
               ''value 58'', ''value 59'', ''value 60'', ''value 61'', ''value 62'', ''value 63'']"
    by (simp add: int_repr_def lit_def)
  have "JString (lit ''value 42'') \<in> (\<lambda>i. JString (lit ''value '' @ int_repr i)) ` {16..63}"
  proof (rule image_eqI)
    show "JString (lit ''value 42'') = JString (lit ''value '' @ int_repr 42)"
      by (simp add: int_repr_def lit_def)
    show "(42::int) \<in> {16..63}" by simp
  qed
  then show ?thesis
    using strs by (simp add: param_default_def param_keyword_def pick_one_entry range)
qed

theorem pick_one_default_in_enum_witness:
  "param_keyword (params (lit ''2022-03-04'') (lit ''2022-03-04'') :: (pystr \<times> unit entry) list)
     (lit ''pick_one'') ''enum'' =
     Some (JArray (map (\<lambda>i. JString (lit ''value '' @ int_repr i)) [16..63]))"
  using pick_one_default_in_enum [of "lit ''2022-03-04''" "lit ''2022-03-04''"]
  by (rule conjunct1 [OF conjunct2])

text \<open>
  C8. The declarations have seventeen names, and the names are pairwise distinct.
\<close>

theorem params_names_distinct:
  "names (params today_1 today_2) =
     map lit
         [''x'', ''text'', ''flag'', ''a_simple_list'', ''most_loved_number'', ''pick_one'',
          ''bool'', ''date_time'', ''date'', ''time'', ''required_field'', ''optional_field'',
          ''checked_text'', ''checked_number'', ''object'', ''hidden_secret_field'',
          ''color_picker'']
   \<and> length (names (params today_1 today_2)) = 17
   \<and> distinct (names (params today_1 today_2))"
proof -
  have eq: "names (params today_1 today_2) =
     map lit
         [''x'', ''text'', ''flag'', ''a_simple_list'', ''most_loved_number'', ''pick_one'',
          ''bool'', ''date_time'', ''date'', ''time'', ''required_field'', ''optional_field'',
          ''checked_text'', ''checked_number'', ''object'', ''hidden_secret_field'',
          ''color_picker'']"
    by (simp add: names_def params_def)
  have len: "length (names (params today_1 today_2)) = 17"
    unfolding eq by simp
  have dist: "distinct (names (params today_1 today_2))"
    unfolding eq by (simp add: lit_eq_iff)
  from eq len dist show ?thesis by blast
qed

theorem params_names_distinct_witness:
  "distinct (names (params (lit ''2022-03-04'') (lit ''2022-03-05'') :: (pystr \<times> unit entry) list))"
  using params_names_distinct [of "lit ''2022-03-04''" "lit ''2022-03-05''"]
  by (rule conjunct2 [OF conjunct2])

text \<open>
  C10. The default of \<open>checked_text\<close> has length 20, which is exactly the declared
  \<open>maxLength\<close> of 20, although the description of the parameter speaks of "between 10
  and 30" characters. The default with any one character more is no longer within the
  declared bounds.
\<close>

theorem checked_text_default_on_upper_bound:
  "param_default (params today_1 today_2) (lit ''checked_text'') =
     Some (JString (lit ''length-checked-field''))
   \<and> length (lit ''length-checked-field'') = 20
   \<and> param_keyword (params today_1 today_2) (lit ''checked_text'') ''maxLength'' = Some (JInt 20)
   \<and> param_keyword (params today_1 today_2) (lit ''checked_text'') ''description_html'' =
       Some (JString checked_text_description_html)
   \<and> contains checked_text_description_html (lit ''between 10 and 30'')
   \<and> map_option
       (\<lambda>e. length_within (JString (lit ''length-checked-field'' @ [c]))
              (keyword e ''minLength'') (keyword e ''maxLength''))
       (map_of (params today_1 today_2) (lit ''checked_text'')) = Some False"
proof -
  have "checked_text_description_html =
      lit ''This field is required. And you need to provide something ''
      @ lit ''between 10 and 30''
      @ lit (''\<newline>''
      @ ''            characters. See the\<newline>''
      @ ''            <a href='https://json-schema.org/understanding-json-schema/reference/string.html'>\<newline>''
      @ ''            JSON schema description (string)</a> in for more details'')"
    unfolding checked_text_description_html_def lit_append [symmetric] by simp
  then have "contains checked_text_description_html (lit ''between 10 and 30'')"
    unfolding contains_iff by blast
  then show ?thesis
    by (simp add: param_default_def param_keyword_def checked_text_entry length_lit)
qed

theorem checked_text_default_on_upper_bound_witness:
  "map_option
     (\<lambda>e. length_within (JString (lit ''length-checked-fields''))
            (keyword e ''minLength'') (keyword e ''maxLength''))
     (map_of (params (lit ''2022-03-04'') (lit ''2022-03-04'') :: (pystr \<times> unit entry) list)
        (lit ''checked_text'')) = Some False"
proof -
  have longer: "lit ''length-checked-field'' @ [115] = lit ''length-checked-fields''"
    by (simp add: lit_def)
  from checked_text_default_on_upper_bound [of "lit ''2022-03-04''" "lit ''2022-03-04''" 115]
  have "map_option
     (\<lambda>e. length_within (JString (lit ''length-checked-field'' @ [115]))
            (keyword e ''minLength'') (keyword e ''maxLength''))
     (map_of (params (lit ''2022-03-04'') (lit ''2022-03-04'') :: (pystr \<times> unit entry) list)
        (lit ''checked_text'')) = Some False"
    by blast
  then show ?thesis by (simp only: longer)
qed

end
